theory Spec2Isabelle
  imports Main "HOL-Library.Char_ord" "HOL-Library.List_Lexorder" "HOL-Library.Multiset"
begin

section \<open>Python values used by pkcs7\_models.py\<close>

text \<open>
  Exceptions are values. \<open>PyAsn1Error\<close> is the error class of the external ASN.1
  decoder, \<open>CertificateError\<close> the class the module declares itself; the others are
  Python built-ins.
\<close>

datatype py_error =
    ValueError
  | IndexError
  | TypeError
  | AttributeError
  | PyAsn1Error
  | CertificateError string

text \<open>Indexing a tuple or list with a non-negative constant, as the source does.\<close>

definition getitem :: "'a list \<Rightarrow> nat \<Rightarrow> py_error + 'a" where
  "getitem xs i = (if i < length xs then Inr (xs ! i) else Inl IndexError)"

text \<open>Truthiness of an element of a bit tuple (a tuple of integers).\<close>

definition truthy :: "int \<Rightarrow> bool" where
  "truthy b = (b \<noteq> 0)"

section \<open>Conversion of text to integers\<close>

text \<open>
  The built-in \<open>int\<close> on a byte string, base 10, as the interpreter of this module
  (Python 2) computes it: white space is skipped before the sign, after the sign and
  after the digits; at least one digit is required; anything else is a \<open>ValueError\<close>.
\<close>

definition is_space :: "char \<Rightarrow> bool" where
  "is_space c = (c \<in> set [CHR '' '', CHR 0x09, CHR 0x0A, CHR 0x0B, CHR 0x0C, CHR 0x0D])"

definition is_digit :: "char \<Rightarrow> bool" where
  "is_digit c = (c \<in> set ''0123456789'')"

definition digit_val :: "char \<Rightarrow> int" where
  "digit_val c = int (of_char c) - 48"

definition digits_val :: "string \<Rightarrow> int" where
  "digits_val ds = foldl (\<lambda>a c. 10 * a + digit_val c) 0 ds"

definition py_int :: "string \<Rightarrow> py_error + int" where
  "py_int s =
     (let t = dropWhile is_space s;
          neg = (case t of [] \<Rightarrow> False | c # r \<Rightarrow> c = CHR ''-'');
          u = (case t of [] \<Rightarrow> [] | c # r \<Rightarrow> if c = CHR ''-'' \<or> c = CHR ''+'' then r else t);
          v = dropWhile is_space u;
          ds = takeWhile is_digit v;
          rest = dropWhile is_digit v
      in if ds = [] \<or> \<not> list_all is_space rest then Inl ValueError
         else Inr (if neg then - digits_val ds else digits_val ds))"

section \<open>datetime\<close>

text \<open>
  A naive \<open>datetime.datetime\<close>. The constructor checks the ranges of its arguments and
  raises \<open>ValueError\<close>; called with six arguments it sets the microsecond to 0.
  Comparison is the lexicographic comparison of the fields.
\<close>

record datetime =
  year :: int
  month :: int
  day :: int
  hour :: int
  minute :: int
  second :: int
  microsecond :: int

definition is_leap :: "int \<Rightarrow> bool" where
  "is_leap y = (y mod 4 = 0 \<and> (y mod 100 \<noteq> 0 \<or> y mod 400 = 0))"

definition days_in_month :: "int \<Rightarrow> int \<Rightarrow> int" where
  "days_in_month y m =
     (if m = 2 then (if is_leap y then 29 else 28)
      else if m = 4 \<or> m = 6 \<or> m = 9 \<or> m = 11 then 30
      else 31)"

definition datetime_new :: "int \<Rightarrow> int \<Rightarrow> int \<Rightarrow> int \<Rightarrow> int \<Rightarrow> int \<Rightarrow> py_error + datetime" where
  "datetime_new y m d h mi s =
     (if 1 \<le> y \<and> y \<le> 9999 \<and> 1 \<le> m \<and> m \<le> 12 \<and> 1 \<le> d \<and> d \<le> days_in_month y m \<and>
         0 \<le> h \<and> h \<le> 23 \<and> 0 \<le> mi \<and> mi \<le> 59 \<and> 0 \<le> s \<and> s \<le> 59
      then Inr \<lparr>year = y, month = m, day = d, hour = h, minute = mi, second = s,
                microsecond = 0\<rparr>
      else Inl ValueError)"

definition datetime_key :: "datetime \<Rightarrow> int list" where
  "datetime_key d = [year d, month d, day d, hour d, minute d, second d, microsecond d]"

definition datetime_le :: "datetime \<Rightarrow> datetime \<Rightarrow> bool" where
  "datetime_le a b = (datetime_key a \<le> datetime_key b)"

section \<open>ValidityInterval\<close>

record ValidityInterval =
  valid_from :: string
  valid_to :: string

text \<open>
  The argument of \<open>_getGeneralizedTime\<close>: \<open>Choice name v\<close> is a CHOICE value whose
  \<open>getName()\<close> is \<open>name\<close> and whose \<open>getComponent()._value\<close> is \<open>v\<close>; \<open>Plain v\<close> is a
  value with neither method (a signingTime attribute), for which both
  \<open>AttributeError\<close>s are caught and \<open>str(timeComponent[1][0])\<close> is \<open>v\<close>.
\<close>

datatype time_component = Choice string string | Plain string

definition getGeneralizedTime :: "time_component \<Rightarrow> py_error + string" where
  "getGeneralizedTime timeComponent =
     (let name = (case timeComponent of Choice n v \<Rightarrow> n | Plain v \<Rightarrow> [])
      in if name = ''generalTime''
         then (case timeComponent of Choice n v \<Rightarrow> Inr v | Plain v \<Rightarrow> Inl AttributeError)
         else
           (let timeValue = (case timeComponent of Choice n v \<Rightarrow> v | Plain v \<Rightarrow> v)
            in case py_int (take 2 timeValue) of
                 Inl e \<Rightarrow> Inl e
               | Inr shortyear \<Rightarrow>
                   Inr ((if shortyear \<ge> 50 then ''19'' else ''20'') @ timeValue)))"

definition ValidityInterval_init :: "time_component \<Rightarrow> time_component \<Rightarrow> py_error + ValidityInterval" where
  "ValidityInterval_init notBefore notAfter =
     (case getGeneralizedTime notBefore of
        Inl e \<Rightarrow> Inl e
      | Inr f \<Rightarrow>
          (case getGeneralizedTime notAfter of
             Inl e \<Rightarrow> Inl e
           | Inr t \<Rightarrow> Inr \<lparr>valid_from = f, valid_to = t\<rparr>))"

text \<open>The slice \<open>date[i:j]\<close> for constants \<open>0 \<le> i \<le> j\<close>.\<close>

definition slice :: "string \<Rightarrow> nat \<Rightarrow> nat \<Rightarrow> string" where
  "slice s i j = take (j - i) (drop i s)"

text \<open>The seconds of \<open>parse_date\<close>: the \<open>try\<close> block and the clamp that follows it.\<close>

definition parse_second :: "string \<Rightarrow> py_error + int" where
  "parse_second date =
     (case (case py_int (slice date 12 14) of
              Inl e \<Rightarrow> if e = ValueError \<or> e = IndexError then Inr 0 else Inl e
            | Inr n \<Rightarrow> Inr n) of
        Inl e \<Rightarrow> Inl e
      | Inr sec \<Rightarrow> Inr (if sec > 59 then 59 else sec))"

definition parse_date :: "string \<Rightarrow> py_error + datetime" where
  "parse_date date =
     (case py_int (slice date 0 4) of Inl e \<Rightarrow> Inl e | Inr y \<Rightarrow>
      case py_int (slice date 4 6) of Inl e \<Rightarrow> Inl e | Inr m \<Rightarrow>
      case py_int (slice date 6 8) of Inl e \<Rightarrow> Inl e | Inr d \<Rightarrow>
      case py_int (slice date 8 10) of Inl e \<Rightarrow> Inl e | Inr h \<Rightarrow>
      case py_int (slice date 10 12) of Inl e \<Rightarrow> Inl e | Inr mi \<Rightarrow>
      case parse_second date of Inl e \<Rightarrow> Inl e | Inr sec \<Rightarrow>
      datetime_new y m d h mi sec)"

section \<open>KeyUsageExt\<close>

record KeyUsageExt =
  digitalSignature :: bool
  nonRepudiation :: bool
  keyEncipherment :: bool
  dataEncipherment :: bool
  keyAgreement :: bool
  keyCertSign :: bool
  cRLSign :: bool
  encipherOnly :: bool
  decipherOnly :: bool

text \<open>
  The body of the \<open>try\<close> block is a sequence of statements
  \<^verbatim>\<open>if (bits[i]): self.flag = True\<close>. \<open>set_flags\<close> runs such a sequence on the object
  built so far; the first \<open>IndexError\<close> leaves the block (\<^verbatim>\<open>except IndexError: return\<close>)
  with the object as it is at that moment.
\<close>

fun set_flags :: "int list \<Rightarrow> (nat \<times> ('s \<Rightarrow> 's)) list \<Rightarrow> 's \<Rightarrow> 's" where
  "set_flags bits [] self = self"
| "set_flags bits ((i, setter) # rest) self =
     (case getitem bits i of
        Inl e \<Rightarrow> self
      | Inr b \<Rightarrow> set_flags bits rest (if truthy b then setter self else self))"

definition KeyUsageExt_init :: "int list \<Rightarrow> KeyUsageExt" where
  "KeyUsageExt_init bits =
     set_flags bits
       [(0, digitalSignature_update (\<lambda>_. True)),
        (1, nonRepudiation_update (\<lambda>_. True)),
        (2, keyEncipherment_update (\<lambda>_. True)),
        (3, dataEncipherment_update (\<lambda>_. True)),
        (4, keyAgreement_update (\<lambda>_. True)),
        (5, keyCertSign_update (\<lambda>_. True)),
        (6, cRLSign_update (\<lambda>_. True)),
        (7, encipherOnly_update (\<lambda>_. True)),
        (8, decipherOnly_update (\<lambda>_. True))]
       \<lparr>digitalSignature = False, nonRepudiation = False, keyEncipherment = False,
        dataEncipherment = False, keyAgreement = False, keyCertSign = False,
        cRLSign = False, encipherOnly = False, decipherOnly = False\<rparr>"

text \<open>The bit at position \<open>i\<close> is present and set.\<close>

definition bit_set :: "int list \<Rightarrow> nat \<Rightarrow> bool" where
  "bit_set bits i = (i < length bits \<and> bits ! i \<noteq> 0)"

text \<open>One statement of the block, without the exception: the flag is set when the bit is.\<close>

definition apply_flag :: "int list \<Rightarrow> nat \<times> ('s \<Rightarrow> 's) \<Rightarrow> 's \<Rightarrow> 's" where
  "apply_flag bits p s = (if bit_set bits (fst p) then snd p s else s)"

section \<open>Extension\<close>

text \<open>
  The schema classes of the external module \<open>certificate_extensions\<close>, by name, and the
  extension types the module knows.
\<close>

datatype asn1Spec =
    GeneralNames | KeyId | SubjectKeyId | BasicConstraints | CertificatePolicies
  | CRLDistributionPoints | Statements | AuthorityInfoAccess | ExtendedKeyUsage
  | PolicyConstraints | NameConstraints | NetscapeCertType

datatype ExtensionType =
    SUBJ_ALT_NAME | AUTH_KEY_ID | SUBJ_KEY_ID | BASIC_CONSTRAINTS | KEY_USAGE
  | EXT_KEY_USAGE | CERT_POLICIES | CRL_DIST_POINTS | STATEMENTS | AUTH_INFO_ACCESS
  | POLICY_CONSTRAINTS | NAME_CONSTRAINTS | NETSCAPE_CERT_TYPE
  | APPLE_SUBMISSION_CERTIFICATE | APPLE_DEVELOPMENT_CERTIFICATE
  | MAC_APPLICATION_SOFTWARE_DEVELOPMENT_SIGNING
  | MAC_APPLICATION_SOFTWARE_SUBMISSION_SIGNING

text \<open>
  The table \<open>_extensionDecoders\<close>: OID to schema (or \<open>None\<close>) and extension type. The
  conversion function of an entry is the one of its extension type.
\<close>

definition extensionDecoders :: "(string \<times> (asn1Spec option \<times> ExtensionType)) list" where
  "extensionDecoders =
     [(''2.5.29.17'', (Some GeneralNames, SUBJ_ALT_NAME)),
      (''2.5.29.35'', (Some KeyId, AUTH_KEY_ID)),
      (''2.5.29.14'', (Some SubjectKeyId, SUBJ_KEY_ID)),
      (''2.5.29.19'', (Some BasicConstraints, BASIC_CONSTRAINTS)),
      (''2.5.29.15'', (None, KEY_USAGE)),
      (''2.5.29.32'', (Some CertificatePolicies, CERT_POLICIES)),
      (''2.5.29.31'', (Some CRLDistributionPoints, CRL_DIST_POINTS)),
      (''1.3.6.1.5.5.7.1.3'', (Some Statements, STATEMENTS)),
      (''1.3.6.1.5.5.7.1.1'', (Some AuthorityInfoAccess, AUTH_INFO_ACCESS)),
      (''2.5.29.37'', (Some ExtendedKeyUsage, EXT_KEY_USAGE)),
      (''2.5.29.36'', (Some PolicyConstraints, POLICY_CONSTRAINTS)),
      (''2.5.29.30'', (Some NameConstraints, NAME_CONSTRAINTS)),
      (''2.16.840.1.113730.1.1'', (Some NetscapeCertType, NETSCAPE_CERT_TYPE)),
      (''1.2.840.113635.100.6.1.4'', (None, APPLE_SUBMISSION_CERTIFICATE)),
      (''1.2.840.113635.100.6.1.2'', (None, APPLE_DEVELOPMENT_CERTIFICATE)),
      (''1.2.840.113635.100.6.1.12'', (None, MAC_APPLICATION_SOFTWARE_DEVELOPMENT_SIGNING)),
      (''1.2.840.113635.100.6.1.7'', (None, MAC_APPLICATION_SOFTWARE_SUBMISSION_SIGNING))]"

text \<open>
  The decoded extension given to the constructor: the dotted OID that \<open>tuple_to_OID\<close>
  makes of \<open>extnID\<close>, the \<open>critical\<close> flag, the bytes of \<open>extnValue\<close>.
\<close>

record asn1_Extension =
  extnID :: string
  critical :: int
  extnValue :: string

text \<open>The value of an extension: the raw bytes, or the typed payload.\<close>

datatype 'p payload = Raw string | Parsed 'p

record 'p Extension =
  ext_id :: string
  is_critical :: bool
  ext_value :: "'p payload"
  ext_type :: "ExtensionType option"

text \<open>
  The decoder and the objects it returns are outside this module. \<open>decode\<close> is the
  decoder, from the bytes and the schema to a decoded value of type \<open>'v\<close> or an error;
  \<open>conv\<close> gives, for an extension type, the conversion function of its table entry, from a
  decoded value to a payload of type \<open>'p\<close> or an error.

  The body of the \<open>try\<close> block:
\<close>

definition decode_and_convert ::
  "(string \<Rightarrow> asn1Spec option \<Rightarrow> py_error + 'v) \<Rightarrow> (ExtensionType \<Rightarrow> 'v \<Rightarrow> py_error + 'p) \<Rightarrow>
   string \<Rightarrow> asn1Spec option \<Rightarrow> ExtensionType \<Rightarrow> py_error + 'p" where
  "decode_and_convert decode conv bytes decoderAsn1Spec extType =
     (case decode bytes decoderAsn1Spec of
        Inl e \<Rightarrow> Inl e
      | Inr v \<Rightarrow> conv extType v)"

definition Extension_init ::
  "(string \<Rightarrow> asn1Spec option \<Rightarrow> py_error + 'v) \<Rightarrow> (ExtensionType \<Rightarrow> 'v \<Rightarrow> py_error + 'p) \<Rightarrow>
   asn1_Extension \<Rightarrow> py_error + 'p Extension" where
  "Extension_init decode conv extension =
     (let self = \<lparr>ext_id = extnID extension, is_critical = (critical extension \<noteq> 0),
                  ext_value = Raw (extnValue extension), ext_type = None\<rparr>
      in case map_of extensionDecoders (ext_id self) of
           Some (decoderAsn1Spec, extType) \<Rightarrow>
             (case decode_and_convert decode conv (extnValue extension) decoderAsn1Spec extType of
                Inr p \<Rightarrow> Inr (self\<lparr>ext_value := Parsed p, ext_type := Some extType\<rparr>)
              | Inl e \<Rightarrow>
                  if e = PyAsn1Error then (if is_critical self then Inl e else Inr self)
                  else Inl e)
         | None \<Rightarrow>
             if is_critical self
             then Inl (CertificateError
                         (''Critical extension OID '' @ ext_id self @ '' not understood''))
             else Inr self)"

text \<open>
  Two kinds of value the decoder returns when it is given no schema, as for key usage: a
  bit string, whose \<open>_value\<close> is the tuple of bits, and an integer, whose \<open>_value\<close> is a
  Python integer. \<open>KeyUsageExt\<close> on an integer fails at \<open>bits[0]\<close> with a \<open>TypeError\<close>,
  which its \<open>except IndexError\<close> does not catch.
\<close>

datatype asn1_value = BitStringValue "int list" | IntegerValue int

definition KeyUsageExt_of :: "asn1_value \<Rightarrow> py_error + KeyUsageExt" where
  "KeyUsageExt_of asn1_keyUsage =
     (case asn1_keyUsage of
        BitStringValue bits \<Rightarrow> Inr (KeyUsageExt_init bits)
      | IntegerValue n \<Rightarrow> Inl TypeError)"

text \<open>
  An example decoder: with no schema, the DER bytes 03 02 05 A0 are the bit string 101
  and the bytes 02 01 05 are the integer 5; everything else is a decoding error. An
  example conversion that knows key usage only.
\<close>

definition example_decode :: "string \<Rightarrow> asn1Spec option \<Rightarrow> py_error + asn1_value" where
  "example_decode bytes spec =
     (if spec = None \<and> bytes = [CHR 0x03, CHR 0x02, CHR 0x05, CHR 0xA0]
        then Inr (BitStringValue [1, 0, 1])
      else if spec = None \<and> bytes = [CHR 0x02, CHR 0x01, CHR 0x05]
        then Inr (IntegerValue 5)
      else Inl PyAsn1Error)"

definition example_conv :: "ExtensionType \<Rightarrow> asn1_value \<Rightarrow> py_error + KeyUsageExt" where
  "example_conv extType v = (if extType = KEY_USAGE then KeyUsageExt_of v else Inl PyAsn1Error)"

section \<open>Verification results\<close>

text \<open>
  A verification-results dictionary maps check names to \<open>True\<close>, \<open>False\<close> or \<open>None\<close>.
  It is an association list with distinct keys, in the dictionary's iteration order.
\<close>

type_synonym results = "(string \<times> bool option) list"

text \<open>\<^verbatim>\<open>d[key] = value\<close>: an existing key keeps its place, a new key is added.\<close>

fun dict_set :: "results \<Rightarrow> string \<Rightarrow> bool option \<Rightarrow> results" where
  "dict_set [] key v = [(key, v)]"
| "dict_set ((k, w) # rest) key v =
     (if k = key then (k, v) # rest else (k, w) # dict_set rest key v)"

text \<open>The loop of \<open>_evaluate_verification_results\<close> over the items of the dictionary.\<close>

fun evaluate_items :: "results \<Rightarrow> bool \<Rightarrow> bool" where
  "evaluate_items [] ignore_missing_crl_check = True"
| "evaluate_items ((key, v) # rest) ignore_missing_crl_check =
     (if v = Some True then evaluate_items rest ignore_missing_crl_check
      else if ignore_missing_crl_check \<and> key = ''CERT_NOT_REVOKED'' \<and> v = None
        then evaluate_items rest ignore_missing_crl_check
      else False)"

definition evaluate_verification_results :: "results option \<Rightarrow> bool \<Rightarrow> bool" where
  "evaluate_verification_results verification_results ignore_missing_crl_check =
     (case verification_results of
        None \<Rightarrow> False
      | Some items \<Rightarrow> evaluate_items items ignore_missing_crl_check)"

text \<open>An entry of the dictionary that the aggregate evaluation accepts.\<close>

definition entry_ok :: "bool \<Rightarrow> string \<times> bool option \<Rightarrow> bool" where
  "entry_ok ignore_missing_crl_check e =
     (snd e = Some True \<or>
      (ignore_missing_crl_check \<and> fst e = ''CERT_NOT_REVOKED'' \<and> snd e = None))"

section \<open>Name\<close>

definition oid2Name :: "(string \<times> string) list" where
  "oid2Name =
     [(''2.5.4.3'', ''CN''),
      (''2.5.4.6'', ''C''),
      (''2.5.4.7'', ''L''),
      (''2.5.4.8'', ''ST''),
      (''2.5.4.10'', ''O''),
      (''2.5.4.11'', ''OU''),
      (''2.5.4.45'', ''X500UID''),
      (''1.2.840.113549.1.9.1'', ''email''),
      (''2.5.4.17'', ''zip''),
      (''2.5.4.9'', ''street''),
      (''2.5.4.15'', ''businessCategory''),
      (''2.5.4.5'', ''serialNumber''),
      (''2.5.4.43'', ''initials''),
      (''2.5.4.44'', ''generationQualifier''),
      (''2.5.4.4'', ''surname''),
      (''2.5.4.42'', ''givenName''),
      (''2.5.4.12'', ''title''),
      (''2.5.4.46'', ''dnQualifier''),
      (''2.5.4.65'', ''pseudonym''),
      (''0.9.2342.19200300.100.1.25'', ''DC''),
      (''1.3.6.1.4.1.5734.1.2'', ''Apellido1''),
      (''1.3.6.1.4.1.5734.1.3'', ''Apellido2''),
      (''1.3.6.1.4.1.5734.1.1'', ''Nombre''),
      (''1.3.6.1.4.1.5734.1.4'', ''DNI''),
      (''0.9.2342.19200300.100.1.1'', ''Userid'')]"

text \<open>\<^verbatim>\<open>Name._oid2Name.get(type) or type\<close>: an absent or empty mapping gives the OID.\<close>

definition typeStr_of :: "string \<Rightarrow> string" where
  "typeStr_of t =
     (case map_of oid2Name t of
        None \<Rightarrow> t
      | Some n \<Rightarrow> if n = [] then t else n)"

text \<open>
  The attributes dictionary of a Name: keys with their lists of values, in insertion
  order.

  The input of the constructor: a name is a sequence of name parts, a name part is a
  sequence of the objects the inner loop calls \<open>attr\<close>, and such an object is a container
  of (type, value) pairs, a relative distinguished name with one or more members. A
  member is given by \<open>str\<close> of its \<open>type\<close> and of its \<open>value\<close>, the members of a container
  in the order the container has them. The constructor reads the member at position 0
  of a container and no other; a container with no member has no position 0, and the
  read fails.
\<close>

type_synonym Name = "(string \<times> string list) list"

type_synonym type_and_value = "string \<times> string"

type_synonym attr = "type_and_value list"

fun add_value :: "Name \<Rightarrow> string \<Rightarrow> string \<Rightarrow> Name" where
  "add_value [] typeStr v = [(typeStr, [v])]"
| "add_value ((k, vs) # rest) typeStr v =
     (if k = typeStr then (k, vs @ [v]) # rest else (k, vs) # add_value rest typeStr v)"

text \<open>The key under which a (type, value) pair is filed, and the filing of a pair.\<close>

definition key_of :: "type_and_value \<Rightarrow> string" where
  "key_of tv = typeStr_of (fst tv)"

definition add_pair :: "Name \<Rightarrow> type_and_value \<Rightarrow> Name" where
  "add_pair attributes tv = add_value attributes (key_of tv) (snd tv)"

text \<open>The body of the inner loop, on one \<open>attr\<close>.\<close>

definition add_attr :: "Name \<Rightarrow> attr \<Rightarrow> py_error + Name" where
  "add_attr attributes a =
     (case getitem a 0 of
        Inl e \<Rightarrow> Inl e
      | Inr tv \<Rightarrow> Inr (add_pair attributes tv))"

text \<open>The inner loop, over a name part, and the outer loop, over the name.\<close>

fun Name_part_loop :: "Name \<Rightarrow> attr list \<Rightarrow> py_error + Name" where
  "Name_part_loop attributes [] = Inr attributes"
| "Name_part_loop attributes (a # rest) =
     (case add_attr attributes a of
        Inl e \<Rightarrow> Inl e
      | Inr attributes' \<Rightarrow> Name_part_loop attributes' rest)"

fun Name_loop :: "Name \<Rightarrow> attr list list \<Rightarrow> py_error + Name" where
  "Name_loop attributes [] = Inr attributes"
| "Name_loop attributes (name_part # rest) =
     (case Name_part_loop attributes name_part of
        Inl e \<Rightarrow> Inl e
      | Inr attributes' \<Rightarrow> Name_loop attributes' rest)"

definition Name_init :: "attr list list \<Rightarrow> py_error + Name" where
  "Name_init name = Name_loop [] name"

text \<open>
  All the (type, value) pairs of a name, and the ones the constructor reads: the first
  member of every container.
\<close>

definition all_pairs :: "attr list list \<Rightarrow> type_and_value list" where
  "all_pairs name = concat (concat name)"

definition first_pairs :: "attr list list \<Rightarrow> type_and_value list" where
  "first_pairs name = concat (map (take 1) (concat name))"

text \<open>\<^verbatim>\<open>sep.join(parts)\<close>\<close>

fun join :: "string \<Rightarrow> string list \<Rightarrow> string" where
  "join sep [] = []"
| "join sep [x] = x"
| "join sep (x # y # rest) = x @ sep @ join sep (y # rest)"

text \<open>
  \<^verbatim>\<open>self.__attributes.get(key)\<close>, for a key taken from the keys of the dictionary.
\<close>

definition values_of :: "Name \<Rightarrow> string \<Rightarrow> string list" where
  "values_of attributes key = (case map_of attributes key of None \<Rightarrow> [] | Some vs \<Rightarrow> vs)"

definition Name_str :: "Name \<Rightarrow> string" where
  "Name_str attributes =
     join '', ''
       (map (\<lambda>key. join '', '' (map (\<lambda>v. key @ ''='' @ v) (sort (values_of attributes key))))
          (sort (map fst attributes)))"

section \<open>Certificate and X509Certificate\<close>

text \<open>
  The fields the validity methods read. Objects that are shared and mutated live in a
  heap: a list of dictionaries, an address being an index. The field
  \<open>verification_results\<close> holds \<open>None\<close> or the address of a dictionary.
\<close>

record Certificate =
  version :: int
  serial_number :: int
  issuer :: Name
  validity :: ValidityInterval
  subject :: Name

record X509Certificate =
  tbsCertificate :: Certificate
  verification_results :: "nat option"
  check_crl :: bool

type_synonym heap = "results list"

text \<open>
  The revocation store is outside this module: \<open>certificate_rev_date\<close> of the CRL cache,
  from the issuer string and the serial number to a date string or \<open>None\<close>.
\<close>

type_synonym crl_cache = "string \<Rightarrow> int \<Rightarrow> string option"

definition time_validity_at_date :: "X509Certificate \<Rightarrow> datetime \<Rightarrow> py_error + bool" where
  "time_validity_at_date self date =
     (case parse_date (valid_from (validity (tbsCertificate self))) of
        Inl e \<Rightarrow> Inl e
      | Inr from_date \<Rightarrow>
          (case parse_date (valid_to (validity (tbsCertificate self))) of
             Inl e \<Rightarrow> Inl e
           | Inr to_date \<Rightarrow> Inr (datetime_le date to_date \<and> datetime_le from_date date)))"

definition get_revocation_date :: "crl_cache \<Rightarrow> X509Certificate \<Rightarrow> py_error + datetime option" where
  "get_revocation_date cache self =
     (let issuer_str = Name_str (issuer (tbsCertificate self));
          rev_date = cache issuer_str (serial_number (tbsCertificate self))
      in case rev_date of
           None \<Rightarrow> Inr None
         | Some s \<Rightarrow>
             if s = [] then Inr None
             else (case parse_date s of Inl e \<Rightarrow> Inl e | Inr d \<Rightarrow> Inr (Some d)))"

definition crl_validity_at_date :: "crl_cache \<Rightarrow> X509Certificate \<Rightarrow> datetime \<Rightarrow> py_error + bool" where
  "crl_validity_at_date cache self date =
     (case get_revocation_date cache self of
        Inl e \<Rightarrow> Inl e
      | Inr None \<Rightarrow> Inr True
      | Inr (Some rev_date) \<Rightarrow> if datetime_le rev_date date then Inr False else Inr True)"

definition verification_results_at_date ::
  "crl_cache \<Rightarrow> X509Certificate \<Rightarrow> datetime \<Rightarrow> heap \<Rightarrow> (py_error + nat option) \<times> heap" where
  "verification_results_at_date cache self date h =
     (case verification_results self of
        None \<Rightarrow> (Inr None, h)
      | Some a \<Rightarrow>
          (let r = length h;
               h1 = h @ [h ! a]
           in case time_validity_at_date self date of
                Inl e \<Rightarrow> (Inl e, h1)
              | Inr time_ok \<Rightarrow>
                  (let h2 = h1[r := dict_set (h1 ! r) ''CERT_TIME_VALIDITY_OK'' (Some time_ok)]
                   in if check_crl self
                      then (case crl_validity_at_date cache self date of
                              Inl e \<Rightarrow> (Inl e, h2)
                            | Inr not_revoked \<Rightarrow>
                                (Inr (Some r),
                                 h2[r := dict_set (h2 ! r) ''CERT_NOT_REVOKED'' (Some not_revoked)]))
                      else (Inr (Some r),
                            h2[r := dict_set (h2 ! r) ''CERT_NOT_REVOKED'' None]))))"

text \<open>The dictionary behind an optional reference.\<close>

definition deref :: "heap \<Rightarrow> nat option \<Rightarrow> results option" where
  "deref h r = map_option (\<lambda>a. h ! a) r"

definition valid_at_date ::
  "crl_cache \<Rightarrow> X509Certificate \<Rightarrow> datetime \<Rightarrow> bool \<Rightarrow> heap \<Rightarrow> (py_error + bool) \<times> heap" where
  "valid_at_date cache self date ignore_missing_crl_check h =
     (case verification_results_at_date cache self date h of
        (Inl e, h') \<Rightarrow> (Inl e, h')
      | (Inr r, h') \<Rightarrow>
          (Inr (evaluate_verification_results (deref h' r) ignore_missing_crl_check), h'))"

definition is_verified :: "X509Certificate \<Rightarrow> bool \<Rightarrow> heap \<Rightarrow> bool" where
  "is_verified self ignore_missing_crl_check h =
     evaluate_verification_results (deref h (verification_results self))
       ignore_missing_crl_check"


text \<open>
  The dictionary that \<open>verification_results_at_date\<close> computes from a copy \<open>base\<close> of the
  stored one, without the heap.
\<close>

definition results_at_date ::
  "crl_cache \<Rightarrow> X509Certificate \<Rightarrow> datetime \<Rightarrow> results \<Rightarrow> py_error + results" where
  "results_at_date cache self date base =
     (case time_validity_at_date self date of
        Inl e \<Rightarrow> Inl e
      | Inr time_ok \<Rightarrow>
          (let results = dict_set base ''CERT_TIME_VALIDITY_OK'' (Some time_ok)
           in if check_crl self
              then (case crl_validity_at_date cache self date of
                      Inl e \<Rightarrow> Inl e
                    | Inr not_revoked \<Rightarrow>
                        Inr (dict_set results ''CERT_NOT_REVOKED'' (Some not_revoked)))
              else Inr (dict_set results ''CERT_NOT_REVOKED'' None)))"

section \<open>An example certificate\<close>

text \<open>
  A certificate valid from 1 January 2020 to 11 January 2020, with CRL checking on, whose
  stored verification results (at address 0 of the example heap) hold one signature check.
\<close>

definition example_cert :: X509Certificate where
  "example_cert =
     \<lparr>tbsCertificate =
        \<lparr>version = 2, serial_number = 7,
         issuer = [(''CN'', [''ca''])],
         validity = \<lparr>valid_from = ''20200101000000Z'', valid_to = ''20200111000000Z''\<rparr>,
         subject = [(''CN'', [''leaf''])]\<rparr>,
      verification_results = Some 0,
      check_crl = True\<rparr>"

definition example_heap :: heap where
  "example_heap = [[(''CERT_SIGNATURE_OK'', Some True)]]"

text \<open>A revocation store that knows no certificate.\<close>

definition empty_cache :: crl_cache where
  "empty_cache issuer_str serial = None"


definition mk_datetime :: "int \<Rightarrow> int \<Rightarrow> int \<Rightarrow> int \<Rightarrow> int \<Rightarrow> int \<Rightarrow> datetime" where
  "mk_datetime y m d h mi s =
     \<lparr>year = y, month = m, day = d, hour = h, minute = mi, second = s, microsecond = 0\<rparr>"

section \<open>Properties\<close>

subsection \<open>Aggregate evaluation\<close>

lemma evaluate_items_iff:
  "evaluate_items items ign = list_all (entry_ok ign) items"
proof (induction items)
  case Nil
  show ?case by simp
next
  case (Cons e items)
  obtain k v where e: "e = (k, v)" by (cases e)
  show ?case
  proof (cases ign)
    case True
    with Cons.IH show ?thesis unfolding e by (simp add: entry_ok_def)
  next
    case False
    with Cons.IH show ?thesis unfolding e by (simp add: entry_ok_def)
  qed
qed

text \<open>
  C4. The aggregate evaluation fails when the map is absent (None); on a map it returns
  True exactly when every entry is true, an unset CERT\_NOT\_REVOKED entry being accepted
  when and only when the caller passes ignore\_missing\_crl\_check.
\<close>

theorem evaluate_verification_results_spec:
  "evaluate_verification_results None ign = False \<and>
   evaluate_verification_results (Some items) ign = list_all (entry_ok ign) items \<and>
   entry_ok ign (k, Some True) \<and>
   \<not> entry_ok ign (k, Some False) \<and>
   entry_ok ign (k, None) = (ign \<and> k = ''CERT_NOT_REVOKED'')"
  by (simp add: evaluate_verification_results_def evaluate_items_iff entry_ok_def)

subsection \<open>Key usage flags\<close>

lemma fold_apply_flag_absent:
  "list_all (\<lambda>p. length bits \<le> fst p) fs \<Longrightarrow> fold (apply_flag bits) fs s = s"
  by (induction fs arbitrary: s) (auto simp: apply_flag_def bit_set_def)

text \<open>
  When the statements read the positions in increasing order, an \<open>IndexError\<close> at one
  position means that every later position is missing too, so leaving the block early
  skips only statements that would not have set anything.
\<close>

lemma set_flags_fold:
  "sorted (map fst fs) \<Longrightarrow> set_flags bits fs s = fold (apply_flag bits) fs s"
proof (induction fs arbitrary: s)
  case Nil
  show ?case by simp
next
  case (Cons p fs)
  obtain i f where p: "p = (i, f)" by (cases p)
  from Cons.prems have srt: "sorted (map fst fs)" and le: "\<forall>q\<in>set fs. i \<le> fst q"
    by (auto simp: p)
  show ?case
  proof (cases "i < length bits")
    case True
    then show ?thesis
      using Cons.IH [OF srt]
      by (simp add: p getitem_def truthy_def apply_flag_def [of bits "(i, f)"] bit_set_def)
  next
    case False
    with le have "list_all (\<lambda>q. length bits \<le> fst q) fs"
      by (auto simp: list_all_iff)
    then have "fold (apply_flag bits) fs s = s" by (rule fold_apply_flag_absent)
    moreover from False have "apply_flag bits (i, f) s = s"
      by (simp add: apply_flag_def bit_set_def)
    ultimately show ?thesis using False
      by (simp add: p getitem_def)
  qed
qed

lemma KeyUsageExt_init_fold:
  "KeyUsageExt_init bits =
     fold (apply_flag bits)
       [(0, digitalSignature_update (\<lambda>_. True)),
        (1, nonRepudiation_update (\<lambda>_. True)),
        (2, keyEncipherment_update (\<lambda>_. True)),
        (3, dataEncipherment_update (\<lambda>_. True)),
        (4, keyAgreement_update (\<lambda>_. True)),
        (5, keyCertSign_update (\<lambda>_. True)),
        (6, cRLSign_update (\<lambda>_. True)),
        (7, encipherOnly_update (\<lambda>_. True)),
        (8, decipherOnly_update (\<lambda>_. True))]
       \<lparr>digitalSignature = False, nonRepudiation = False, keyEncipherment = False,
        dataEncipherment = False, keyAgreement = False, keyCertSign = False,
        cRLSign = False, encipherOnly = False, decipherOnly = False\<rparr>"
  unfolding KeyUsageExt_init_def by (rule set_flags_fold) simp

lemma KeyUsageExt_digitalSignature: "digitalSignature (KeyUsageExt_init bits) = bit_set bits 0"
  by (simp add: KeyUsageExt_init_fold apply_flag_def if_distrib [of digitalSignature])

lemma KeyUsageExt_nonRepudiation: "nonRepudiation (KeyUsageExt_init bits) = bit_set bits 1"
  by (simp add: KeyUsageExt_init_fold apply_flag_def if_distrib [of nonRepudiation])

lemma KeyUsageExt_keyEncipherment: "keyEncipherment (KeyUsageExt_init bits) = bit_set bits 2"
  by (simp add: KeyUsageExt_init_fold apply_flag_def if_distrib [of keyEncipherment])

lemma KeyUsageExt_dataEncipherment: "dataEncipherment (KeyUsageExt_init bits) = bit_set bits 3"
  by (simp add: KeyUsageExt_init_fold apply_flag_def if_distrib [of dataEncipherment])

lemma KeyUsageExt_keyAgreement: "keyAgreement (KeyUsageExt_init bits) = bit_set bits 4"
  by (simp add: KeyUsageExt_init_fold apply_flag_def if_distrib [of keyAgreement])

lemma KeyUsageExt_keyCertSign: "keyCertSign (KeyUsageExt_init bits) = bit_set bits 5"
  by (simp add: KeyUsageExt_init_fold apply_flag_def if_distrib [of keyCertSign])

lemma KeyUsageExt_cRLSign: "cRLSign (KeyUsageExt_init bits) = bit_set bits 6"
  by (simp add: KeyUsageExt_init_fold apply_flag_def if_distrib [of cRLSign])

lemma KeyUsageExt_encipherOnly: "encipherOnly (KeyUsageExt_init bits) = bit_set bits 7"
  by (simp add: KeyUsageExt_init_fold apply_flag_def if_distrib [of encipherOnly])

lemma KeyUsageExt_decipherOnly: "decipherOnly (KeyUsageExt_init bits) = bit_set bits 8"
  by (simp add: KeyUsageExt_init_fold apply_flag_def if_distrib [of decipherOnly])

lemma KeyUsageExt_init_101:
  "KeyUsageExt_init [1, 0, 1] =
     \<lparr>digitalSignature = True, nonRepudiation = False, keyEncipherment = True,
      dataEncipherment = False, keyAgreement = False, keyCertSign = False,
      cRLSign = False, encipherOnly = False, decipherOnly = False\<rparr>"
  by (simp add: KeyUsageExt_init_def getitem_def truthy_def)

text \<open>
  C9. Each named flag of KeyUsageExt, digitalSignature at position 0 through decipherOnly
  at position 8, is true exactly when the bit string has that position and the bit there
  is set; a shorter bit string leaves the flags of the missing positions false and does
  not fail. The 3-bit value [1,0,1] gives digitalSignature and keyEncipherment true and
  every other flag false.
\<close>

theorem KeyUsageExt_init_spec:
  "digitalSignature (KeyUsageExt_init bits) = bit_set bits 0 \<and>
   nonRepudiation (KeyUsageExt_init bits) = bit_set bits 1 \<and>
   keyEncipherment (KeyUsageExt_init bits) = bit_set bits 2 \<and>
   dataEncipherment (KeyUsageExt_init bits) = bit_set bits 3 \<and>
   keyAgreement (KeyUsageExt_init bits) = bit_set bits 4 \<and>
   keyCertSign (KeyUsageExt_init bits) = bit_set bits 5 \<and>
   cRLSign (KeyUsageExt_init bits) = bit_set bits 6 \<and>
   encipherOnly (KeyUsageExt_init bits) = bit_set bits 7 \<and>
   decipherOnly (KeyUsageExt_init bits) = bit_set bits 8 \<and>
   KeyUsageExt_init [1, 0, 1] =
     \<lparr>digitalSignature = True, nonRepudiation = False, keyEncipherment = True,
      dataEncipherment = False, keyAgreement = False, keyCertSign = False,
      cRLSign = False, encipherOnly = False, decipherOnly = False\<rparr>"
  by (simp only: KeyUsageExt_digitalSignature KeyUsageExt_nonRepudiation
      KeyUsageExt_keyEncipherment KeyUsageExt_dataEncipherment KeyUsageExt_keyAgreement
      KeyUsageExt_keyCertSign KeyUsageExt_cRLSign KeyUsageExt_encipherOnly
      KeyUsageExt_decipherOnly KeyUsageExt_init_101 simp_thms)

subsection \<open>Dates\<close>

lemma py_int_error: "py_int s = Inl e \<Longrightarrow> e = ValueError"
  by (auto simp: py_int_def Let_def split: if_splits)

lemma py_int_empty: "py_int [] = Inl ValueError"
  by (simp add: py_int_def)

lemma parse_second_value:
  "parse_second date =
     Inr (case py_int (slice date 12 14) of
            Inl e \<Rightarrow> 0
          | Inr n \<Rightarrow> if n > 59 then 59 else n)"
proof (cases "py_int (slice date 12 14)")
  case (Inl e)
  then have "e = ValueError" by (rule py_int_error)
  with Inl show ?thesis by (simp add: parse_second_def)
next
  case (Inr n)
  then show ?thesis by (simp add: parse_second_def)
qed

lemma parse_date_fields:
  assumes "py_int (slice date 0 4) = Inr y"
    and "py_int (slice date 4 6) = Inr m"
    and "py_int (slice date 6 8) = Inr d"
    and "py_int (slice date 8 10) = Inr h"
    and "py_int (slice date 10 12) = Inr mi"
  shows "parse_date date =
     datetime_new y m d h mi
       (case py_int (slice date 12 14) of Inl e \<Rightarrow> 0 | Inr n \<Rightarrow> if n > 59 then 59 else n)"
  using assms by (simp add: parse_date_def parse_second_value)

lemma datetime_new_second:
  "datetime_new y m d h mi s = Inr dt \<Longrightarrow> second dt = s"
  by (auto simp: datetime_new_def split: if_splits)

lemmas eval_date_defs =
  parse_date_def parse_second_def slice_def py_int_def is_space_def is_digit_def
  digits_val_def digit_val_def datetime_new_def days_in_month_def is_leap_def

text \<open>
  C8. On a date string whose year, month, day, hour and minute fields are numeric,
  parse\_date builds the datetime from those fields and a second that is the seconds
  field clamped to at most 59 when that field is numeric, and 0 when it is absent or not
  numeric; whenever the constructor accepts the fields the result carries that second. A
  12-character string has no seconds field and parses with second 0.
\<close>

theorem parse_date_seconds:
  assumes "py_int (slice date 0 4) = Inr y"
    and "py_int (slice date 4 6) = Inr m"
    and "py_int (slice date 6 8) = Inr d"
    and "py_int (slice date 8 10) = Inr h"
    and "py_int (slice date 10 12) = Inr mi"
  shows "(py_int (slice date 12 14) = Inr n \<longrightarrow>
            parse_date date = datetime_new y m d h mi (if n > 59 then 59 else n)) \<and>
         (py_int (slice date 12 14) = Inl e \<longrightarrow>
            parse_date date = datetime_new y m d h mi 0) \<and>
         (length date = 12 \<longrightarrow> parse_date date = datetime_new y m d h mi 0) \<and>
         (n > 59 \<longrightarrow> py_int (slice date 12 14) = Inr n \<longrightarrow>
            datetime_new y m d h mi 59 = Inr dt \<longrightarrow>
            parse_date date = Inr dt \<and> second dt = 59) \<and>
         (length date = 12 \<longrightarrow> datetime_new y m d h mi 0 = Inr dt \<longrightarrow>
            parse_date date = Inr dt \<and> second dt = 0)"
proof -
  note pd = parse_date_fields [OF assms]
  have short: "length date = 12 \<Longrightarrow> py_int (slice date 12 14) = Inl ValueError"
    by (simp add: slice_def py_int_empty)
  have a: "py_int (slice date 12 14) = Inr n \<longrightarrow>
            parse_date date = datetime_new y m d h mi (if n > 59 then 59 else n)"
    by (simp add: pd)
  have b: "py_int (slice date 12 14) = Inl e \<longrightarrow> parse_date date = datetime_new y m d h mi 0"
    by (simp add: pd)
  have c: "length date = 12 \<longrightarrow> parse_date date = datetime_new y m d h mi 0"
    using short by (simp add: pd)
  have d: "n > 59 \<longrightarrow> py_int (slice date 12 14) = Inr n \<longrightarrow>
            datetime_new y m d h mi 59 = Inr dt \<longrightarrow>
            parse_date date = Inr dt \<and> second dt = 59"
    using datetime_new_second [of y m d h mi 59 dt] by (simp add: pd)
  have e: "length date = 12 \<longrightarrow> datetime_new y m d h mi 0 = Inr dt \<longrightarrow>
            parse_date date = Inr dt \<and> second dt = 0"
    using c datetime_new_second [of y m d h mi 0 dt] by simp
  from a b c d e show ?thesis by blast
qed

theorem parse_date_seconds_witness:
  "parse_date ''202001011230'' =
     Inr \<lparr>year = 2020, month = 1, day = 1, hour = 12, minute = 30, second = 0,
          microsecond = 0\<rparr> \<and>
   parse_date ''20200101123061Z'' =
     Inr \<lparr>year = 2020, month = 1, day = 1, hour = 12, minute = 30, second = 59,
          microsecond = 0\<rparr>"
proof -
  have f: "py_int (slice ''20200101123061Z'' 0 4) = Inr 2020"
    "py_int (slice ''20200101123061Z'' 4 6) = Inr 1"
    "py_int (slice ''20200101123061Z'' 6 8) = Inr 1"
    "py_int (slice ''20200101123061Z'' 8 10) = Inr 12"
    "py_int (slice ''20200101123061Z'' 10 12) = Inr 30"
    "py_int (slice ''20200101123061Z'' 12 14) = Inr 61"
    by (simp_all add: eval_date_defs)
  have g: "py_int (slice ''202001011230'' 0 4) = Inr 2020"
    "py_int (slice ''202001011230'' 4 6) = Inr 1"
    "py_int (slice ''202001011230'' 6 8) = Inr 1"
    "py_int (slice ''202001011230'' 8 10) = Inr 12"
    "py_int (slice ''202001011230'' 10 12) = Inr 30"
    by (simp_all add: eval_date_defs)
  have n59: "datetime_new 2020 1 1 12 30 59 =
     Inr \<lparr>year = 2020, month = 1, day = 1, hour = 12, minute = 30, second = 59,
          microsecond = 0\<rparr>"
    by (simp add: datetime_new_def days_in_month_def)
  have n0: "datetime_new 2020 1 1 12 30 0 =
     Inr \<lparr>year = 2020, month = 1, day = 1, hour = 12, minute = 30, second = 0,
          microsecond = 0\<rparr>"
    by (simp add: datetime_new_def days_in_month_def)
  have "parse_date ''20200101123061Z'' = datetime_new 2020 1 1 12 30 59"
    using parse_date_seconds [OF f(1-5), of 61] f(6) by simp
  moreover have "parse_date ''202001011230'' = datetime_new 2020 1 1 12 30 0"
    using parse_date_seconds [OF g] by simp
  ultimately show ?thesis by (simp only: n59 n0 simp_thms)
qed

text \<open>
  C7. \_getGeneralizedTime returns a generalized-time string as it is; for any other
  variant it reads the first two characters as the short year and puts "19" in front of
  the string when that number is at least 50, "20" otherwise. "500101120000Z" becomes a
  date of the year 1950 and "491231235959Z" one of the year 2049.
\<close>

theorem getGeneralizedTime_spec:
  "getGeneralizedTime (Choice ''generalTime'' v) = Inr v \<and>
   (name \<noteq> ''generalTime'' \<longrightarrow> py_int (take 2 v) = Inr n \<longrightarrow>
      getGeneralizedTime (Choice name v) =
        Inr ((if n \<ge> 50 then ''19'' else ''20'') @ v)) \<and>
   getGeneralizedTime (Choice ''utcTime'' ''500101120000Z'') = Inr ''19500101120000Z'' \<and>
   getGeneralizedTime (Choice ''utcTime'' ''491231235959Z'') = Inr ''20491231235959Z'' \<and>
   map_sum id year (parse_date ''19500101120000Z'') = Inr 1950 \<and>
   map_sum id year (parse_date ''20491231235959Z'') = Inr 2049"
proof -
  have a: "getGeneralizedTime (Choice ''generalTime'' v) = Inr v"
    by (simp add: getGeneralizedTime_def)
  have b: "name \<noteq> ''generalTime'' \<longrightarrow> py_int (take 2 v) = Inr n \<longrightarrow>
      getGeneralizedTime (Choice name v) = Inr ((if n \<ge> 50 then ''19'' else ''20'') @ v)"
    by (simp add: getGeneralizedTime_def)
  have c: "getGeneralizedTime (Choice ''utcTime'' ''500101120000Z'') = Inr ''19500101120000Z''"
    by (simp add: getGeneralizedTime_def eval_date_defs)
  have d: "getGeneralizedTime (Choice ''utcTime'' ''491231235959Z'') = Inr ''20491231235959Z''"
    by (simp add: getGeneralizedTime_def eval_date_defs)
  have e: "map_sum id year (parse_date ''19500101120000Z'') = Inr 1950"
    by (simp add: eval_date_defs)
  have f: "map_sum id year (parse_date ''20491231235959Z'') = Inr 2049"
    by (simp add: eval_date_defs)
  from a b c d e f show ?thesis by blast
qed

theorem getGeneralizedTime_spec_witness:
  "py_int (take 2 ''991231235959Z'') = Inr 99 \<and>
   getGeneralizedTime (Choice ''utcTime'' ''991231235959Z'') = Inr ''19991231235959Z''"
proof -
  have p: "py_int (take 2 ''991231235959Z'') = Inr 99"
    by (simp add: eval_date_defs)
  have "getGeneralizedTime (Choice ''utcTime'' ''991231235959Z'') =
      Inr ((if (99::int) \<ge> 50 then ''19'' else ''20'') @ ''991231235959Z'')"
    using getGeneralizedTime_spec [of "''991231235959Z''" "''utcTime''" 99] p by simp
  with p show ?thesis by simp
qed

subsection \<open>Validity evaluation\<close>

lemma map_of_dict_set:
  "map_of (dict_set d k v) k' = (if k' = k then Some v else map_of d k')"
  by (induction d k v rule: dict_set.induct) auto






lemma verification_results_at_date_heap:
  "take (length h) (snd (verification_results_at_date cache self date h)) = h"
  by (simp add: verification_results_at_date_def Let_def split: option.splits sum.splits)

lemma verification_results_at_date_ref:
  assumes "verification_results self = Some a"
    and "fst (verification_results_at_date cache self date h) = Inr r"
  shows "r = Some (length h) \<and>
    (\<exists>t c. time_validity_at_date self date = Inr t \<and>
       (check_crl self \<longrightarrow> crl_validity_at_date cache self date = Inr c) \<and>
       snd (verification_results_at_date cache self date h) =
         h @ [dict_set (dict_set (h ! a) ''CERT_TIME_VALIDITY_OK'' (Some t))
             ''CERT_NOT_REVOKED'' (if check_crl self then Some c else None)])"
  using assms
  by (auto simp add: verification_results_at_date_def Let_def nth_append
      split: option.splits sum.splits if_splits)

lemma datetime_le_refl: "datetime_le d d"
  by (simp add: datetime_le_def)

text \<open>
  C6. When both validity dates of the certificate parse, time\_validity\_at\_date returns
  true exactly when valid\_from \<le> date \<le> valid\_to. Both endpoints are inclusive: the
  answer at valid\_from and at valid\_to is true, and it is false at every date before
  valid\_from or after valid\_to.
\<close>

theorem time_validity_at_date_spec:
  assumes "parse_date (valid_from (validity (tbsCertificate self))) = Inr from_date"
    and "parse_date (valid_to (validity (tbsCertificate self))) = Inr to_date"
  shows "time_validity_at_date self date =
           Inr (datetime_le from_date date \<and> datetime_le date to_date) \<and>
         (datetime_le from_date to_date \<longrightarrow>
            time_validity_at_date self from_date = Inr True \<and>
            time_validity_at_date self to_date = Inr True) \<and>
         (\<not> datetime_le from_date date \<longrightarrow> time_validity_at_date self date = Inr False) \<and>
         (\<not> datetime_le date to_date \<longrightarrow> time_validity_at_date self date = Inr False)"
proof -
  have v: "time_validity_at_date self d =
      Inr (datetime_le from_date d \<and> datetime_le d to_date)" for d
    using assms by (auto simp: time_validity_at_date_def)
  show ?thesis by (simp add: v datetime_le_refl)
qed

lemmas eval_cert_defs =
  example_cert_def mk_datetime_def datetime_le_def datetime_key_def

theorem time_validity_at_date_spec_witness:
  "time_validity_at_date example_cert (mk_datetime 2020 1 1 0 0 0) = Inr True \<and>
   time_validity_at_date example_cert (mk_datetime 2020 1 11 0 0 0) = Inr True \<and>
   time_validity_at_date example_cert (mk_datetime 2019 12 31 23 59 59) = Inr False \<and>
   time_validity_at_date example_cert (mk_datetime 2020 1 11 0 0 1) = Inr False"
proof -
  have f: "parse_date (valid_from (validity (tbsCertificate example_cert))) =
      Inr (mk_datetime 2020 1 1 0 0 0)"
    by (simp add: example_cert_def mk_datetime_def eval_date_defs)
  have t: "parse_date (valid_to (validity (tbsCertificate example_cert))) =
      Inr (mk_datetime 2020 1 11 0 0 0)"
    by (simp add: example_cert_def mk_datetime_def eval_date_defs)
  note spec = time_validity_at_date_spec [OF f t]
  have le: "datetime_le (mk_datetime 2020 1 1 0 0 0) (mk_datetime 2020 1 11 0 0 0)"
    by (simp add: eval_cert_defs)
  have before: "\<not> datetime_le (mk_datetime 2020 1 1 0 0 0) (mk_datetime 2019 12 31 23 59 59)"
    by (simp add: eval_cert_defs)
  have after: "\<not> datetime_le (mk_datetime 2020 1 11 0 0 1) (mk_datetime 2020 1 11 0 0 0)"
    by (simp add: eval_cert_defs)
  from spec [of "mk_datetime 2020 1 1 0 0 0"] le
  have a: "time_validity_at_date example_cert (mk_datetime 2020 1 1 0 0 0) = Inr True"
    and b: "time_validity_at_date example_cert (mk_datetime 2020 1 11 0 0 0) = Inr True"
    by blast+
  from spec [of "mk_datetime 2019 12 31 23 59 59"] before
  have c: "time_validity_at_date example_cert (mk_datetime 2019 12 31 23 59 59) = Inr False"
    by blast
  from spec [of "mk_datetime 2020 1 11 0 0 1"] after
  have d: "time_validity_at_date example_cert (mk_datetime 2020 1 11 0 0 1) = Inr False"
    by blast
  from a b c d show ?thesis by blast
qed









lemma example_time_ok:
  "time_validity_at_date example_cert (mk_datetime 2020 1 5 0 0 0) = Inr True"
  by (simp add: time_validity_at_date_def eval_cert_defs eval_date_defs)




lemma valid_at_date_heap:
  "snd (valid_at_date cache self date ign h) =
   snd (verification_results_at_date cache self date h)"
  by (cases "verification_results_at_date cache self date h")
     (auto simp: valid_at_date_def split: sum.splits)

text \<open>
  The answer of \<open>valid_at_date\<close> is a function of the stored dictionary alone, not of the
  rest of the heap.
\<close>

lemma valid_at_date_value:
  assumes "verification_results self = Some a" and "a < length h"
  shows "fst (valid_at_date cache self date ign h) =
     (case results_at_date cache self date (h ! a) of
        Inl e \<Rightarrow> Inl e
      | Inr d \<Rightarrow> Inr (evaluate_items d ign))"
  using assms
  by (simp add: valid_at_date_def verification_results_at_date_def results_at_date_def
      Let_def deref_def evaluate_verification_results_def nth_append
      split: sum.splits)

text \<open>
  C10. For a certificate whose verification\_results field holds a dictionary,
  verification\_results\_at\_date leaves every object that existed before the call as it
  was, the stored dictionary among them; what it returns is a new dictionary, at an
  address that was not in use, equal to the stored one with CERT\_TIME\_VALIDITY\_OK and
  CERT\_NOT\_REVOKED set, every other key mapped as in the stored dictionary. The same
  holds of valid\_at\_date, and a second evaluation at the same date gives the same
  answer. The two entries that are set are the answer of the time check and, with CRL
  checking enabled, the answer of the revocation check, None otherwise.
\<close>

theorem verification_results_at_date_frame:
  assumes "verification_results self = Some a" and "a < length h"
  shows "take (length h) (snd (verification_results_at_date cache self date h)) = h \<and>
         snd (verification_results_at_date cache self date h) ! a = h ! a \<and>
         (fst (verification_results_at_date cache self date h) = Inr r \<longrightarrow>
            r = Some (length h) \<and>
            length (snd (verification_results_at_date cache self date h)) = Suc (length h) \<and>
            (\<exists>t c. snd (verification_results_at_date cache self date h) ! length h =
                     dict_set (dict_set (h ! a) ''CERT_TIME_VALIDITY_OK'' t)
                       ''CERT_NOT_REVOKED'' c) \<and>
            (k \<noteq> ''CERT_TIME_VALIDITY_OK'' \<longrightarrow> k \<noteq> ''CERT_NOT_REVOKED'' \<longrightarrow>
               map_of (snd (verification_results_at_date cache self date h) ! length h) k =
               map_of (h ! a) k)) \<and>
         take (length h) (snd (valid_at_date cache self date ign h)) = h \<and>
         snd (valid_at_date cache self date ign h) ! a = h ! a \<and>
         fst (valid_at_date cache self date ign (snd (valid_at_date cache self date ign h))) =
         fst (valid_at_date cache self date ign h) \<and>
         (fst (verification_results_at_date cache self date h) = Inr r \<longrightarrow>
            (\<exists>t c. time_validity_at_date self date = Inr t \<and>
               (check_crl self \<longrightarrow> crl_validity_at_date cache self date = Inr c) \<and>
               snd (verification_results_at_date cache self date h) ! length h =
                 dict_set (dict_set (h ! a) ''CERT_TIME_VALIDITY_OK'' (Some t))
                   ''CERT_NOT_REVOKED'' (if check_crl self then Some c else None)))"
proof -
  let ?vr = "verification_results_at_date cache self date h"
  have vals: "fst ?vr = Inr r \<longrightarrow>
            (\<exists>t c. time_validity_at_date self date = Inr t \<and>
               (check_crl self \<longrightarrow> crl_validity_at_date cache self date = Inr c) \<and>
               snd ?vr ! length h =
                 dict_set (dict_set (h ! a) ''CERT_TIME_VALIDITY_OK'' (Some t))
                   ''CERT_NOT_REVOKED'' (if check_crl self then Some c else None))"
  proof
    assume "fst ?vr = Inr r"
    from verification_results_at_date_ref [OF assms(1) this]
    obtain t c where t: "time_validity_at_date self date = Inr t"
      and c: "check_crl self \<longrightarrow> crl_validity_at_date cache self date = Inr c"
      and s: "snd ?vr = h @ [dict_set (dict_set (h ! a) ''CERT_TIME_VALIDITY_OK'' (Some t))
             ''CERT_NOT_REVOKED'' (if check_crl self then Some c else None)]"
      by blast
    from s have "snd ?vr ! length h =
        dict_set (dict_set (h ! a) ''CERT_TIME_VALIDITY_OK'' (Some t))
          ''CERT_NOT_REVOKED'' (if check_crl self then Some c else None)"
      by (simp only: nth_append_length)
    with t c show "\<exists>t c. time_validity_at_date self date = Inr t \<and>
               (check_crl self \<longrightarrow> crl_validity_at_date cache self date = Inr c) \<and>
               snd ?vr ! length h =
                 dict_set (dict_set (h ! a) ''CERT_TIME_VALIDITY_OK'' (Some t))
                   ''CERT_NOT_REVOKED'' (if check_crl self then Some c else None)"
      by blast
  qed
  have pre: "take (length h) (snd ?vr) = h"
    by (rule verification_results_at_date_heap)
  have same: "snd ?vr ! a = h ! a"
  proof -
    have "take (length h) (snd ?vr) ! a = snd ?vr ! a"
      using assms(2) by simp
    with pre show ?thesis by simp
  qed
  have new: "fst ?vr = Inr r \<longrightarrow>
            r = Some (length h) \<and>
            length (snd ?vr) = Suc (length h) \<and>
            (\<exists>t c. snd ?vr ! length h =
                     dict_set (dict_set (h ! a) ''CERT_TIME_VALIDITY_OK'' t)
                       ''CERT_NOT_REVOKED'' c) \<and>
            (k \<noteq> ''CERT_TIME_VALIDITY_OK'' \<longrightarrow> k \<noteq> ''CERT_NOT_REVOKED'' \<longrightarrow>
               map_of (snd ?vr ! length h) k = map_of (h ! a) k)"
  proof
    assume "fst ?vr = Inr r"
    from verification_results_at_date_ref [OF assms(1) this]
    obtain t c where r: "r = Some (length h)"
      and s: "snd ?vr = h @ [dict_set (dict_set (h ! a) ''CERT_TIME_VALIDITY_OK'' (Some t))
             ''CERT_NOT_REVOKED'' (if check_crl self then Some c else None)]"
      by blast
    have "\<exists>t c. snd ?vr ! length h =
                     dict_set (dict_set (h ! a) ''CERT_TIME_VALIDITY_OK'' t)
                       ''CERT_NOT_REVOKED'' c"
      unfolding s by (simp only: nth_append_length) blast
    moreover have "k \<noteq> ''CERT_TIME_VALIDITY_OK'' \<longrightarrow> k \<noteq> ''CERT_NOT_REVOKED'' \<longrightarrow>
               map_of (snd ?vr ! length h) k = map_of (h ! a) k"
      unfolding s by (simp only: nth_append_length map_of_dict_set) simp
    moreover have "length (snd ?vr) = Suc (length h)"
      unfolding s by simp
    ultimately show "r = Some (length h) \<and>
            length (snd ?vr) = Suc (length h) \<and>
            (\<exists>t c. snd ?vr ! length h =
                     dict_set (dict_set (h ! a) ''CERT_TIME_VALIDITY_OK'' t)
                       ''CERT_NOT_REVOKED'' c) \<and>
            (k \<noteq> ''CERT_TIME_VALIDITY_OK'' \<longrightarrow> k \<noteq> ''CERT_NOT_REVOKED'' \<longrightarrow>
               map_of (snd ?vr ! length h) k = map_of (h ! a) k)"
      using r by blast
  qed
  have again: "fst (valid_at_date cache self date ign (snd (valid_at_date cache self date ign h))) =
         fst (valid_at_date cache self date ign h)"
  proof -
    have "length h \<le> length (snd ?vr)"
      using pre by (metis length_take min.cobounded1 min.commute)
    with assms(2) have a': "a < length (snd ?vr)" by simp
    show ?thesis
      unfolding valid_at_date_heap
      by (simp only: valid_at_date_value [OF assms(1) a'] valid_at_date_value [OF assms] same)
  qed
  from pre same new again vals show ?thesis
    by (simp only: valid_at_date_heap simp_thms)
qed

theorem verification_results_at_date_frame_witness:
  "take 1 (snd (verification_results_at_date empty_cache example_cert
                  (mk_datetime 2020 1 5 0 0 0) example_heap)) = example_heap \<and>
   snd (verification_results_at_date empty_cache example_cert
          (mk_datetime 2020 1 5 0 0 0) example_heap) ! 0 = example_heap ! 0 \<and>
   fst (verification_results_at_date empty_cache example_cert
          (mk_datetime 2020 1 5 0 0 0) example_heap) = Inr (Some 1) \<and>
   map_of (snd (verification_results_at_date empty_cache example_cert
                  (mk_datetime 2020 1 5 0 0 0) example_heap) ! 1) ''CERT_SIGNATURE_OK'' =
     Some (Some True)"
proof -
  have a: "verification_results example_cert = Some 0" "0 < length example_heap"
    by (simp_all add: example_cert_def example_heap_def)
  have len: "length example_heap = 1" by (simp add: example_heap_def)
  have c: "crl_validity_at_date empty_cache example_cert (mk_datetime 2020 1 5 0 0 0) = Inr True"
    by (simp add: crl_validity_at_date_def get_revocation_date_def empty_cache_def)
  have f: "fst (verification_results_at_date empty_cache example_cert
          (mk_datetime 2020 1 5 0 0 0) example_heap) = Inr (Some 1)"
    by (simp add: verification_results_at_date_def a(1) example_time_ok c example_heap_def
        example_cert_def [THEN arg_cong, of check_crl])
  have m: "map_of (example_heap ! 0) ''CERT_SIGNATURE_OK'' = Some (Some True)"
    by (simp add: example_heap_def)
  from verification_results_at_date_frame [OF a, of empty_cache "mk_datetime 2020 1 5 0 0 0"
      "Some 1" "''CERT_SIGNATURE_OK''" False] f m len
  show ?thesis by simp
qed

subsection \<open>Names\<close>

lemma keys_add_value: "fst ` set (add_value d k v) = insert k (fst ` set d)"
  by (induction d k v rule: add_value.induct) auto

lemma distinct_add_value:
  "distinct (map fst d) \<Longrightarrow> distinct (map fst (add_value d k v))"
  by (induction d k v rule: add_value.induct) (auto simp: keys_add_value)

lemma values_of_add_value:
  "values_of (add_value d k v) k' = (if k' = k then values_of d k @ [v] else values_of d k')"
  by (induction d k v rule: add_value.induct) (auto simp: values_of_def)

lemma values_of_Nil: "values_of [] k = []"
  by (simp add: values_of_def)

lemma keys_foldl_add_pair:
  "fst ` set (foldl add_pair d xs) = fst ` set d \<union> key_of ` set xs"
  by (induction xs arbitrary: d) (auto simp: add_pair_def keys_add_value)

lemma distinct_foldl_add_pair:
  "distinct (map fst d) \<Longrightarrow> distinct (map fst (foldl add_pair d xs))"
  by (induction xs arbitrary: d) (auto simp: add_pair_def distinct_add_value)

lemma values_foldl_add_pair:
  "mset (values_of (foldl add_pair d xs) k) =
   mset (values_of d k) + image_mset snd (filter_mset (\<lambda>a. key_of a = k) (mset xs))"
  by (induction xs arbitrary: d) (auto simp: add_pair_def values_of_add_value)

lemma sort_mset_cong: "mset xs = mset ys \<Longrightarrow> sort xs = sort (ys :: 'a :: linorder list)"
  by (rule properties_for_sort) simp_all

lemma sort_distinct_set_cong:
  assumes "distinct xs" "distinct ys" "set xs = set (ys :: 'a :: linorder list)"
  shows "sort xs = sort ys"
  using assms by (intro sort_mset_cong) (simp add: set_eq_iff_mset_eq_distinct)

text \<open>The string of the dictionary that filing a list of pairs one by one gives.\<close>

lemma Name_str_render:
  "Name_str (foldl add_pair [] xs) =
     join '', ''
       (map (\<lambda>k. join '', ''
                 (map (\<lambda>v. k @ ''='' @ v)
                    (sort (map snd (filter (\<lambda>a. key_of a = k) xs)))))
          (sort (remdups (map key_of xs))))"
proof -
  let ?d = "foldl add_pair [] xs"
  have "distinct (map fst ?d)"
    by (simp add: distinct_foldl_add_pair)
  moreover have "set (map fst ?d) = set (remdups (map key_of xs))"
    by (simp only: set_map set_remdups keys_foldl_add_pair) simp
  ultimately have keys: "sort (map fst ?d) = sort (remdups (map key_of xs))"
    by (intro sort_distinct_set_cong) simp_all
  have vals: "sort (values_of ?d k) = sort (map snd (filter (\<lambda>a. key_of a = k) xs))" for k
    by (rule sort_mset_cong) (simp add: values_foldl_add_pair values_of_Nil)
  show ?thesis
    unfolding Name_str_def keys vals ..
qed

lemma Name_str_permutation:
  assumes "mset xs = mset ys"
  shows "Name_str (foldl add_pair [] xs) = Name_str (foldl add_pair [] ys)"
proof -
  from assms have s: "set xs = set ys"
    by (rule mset_eq_setD)
  have "set (map key_of xs) = set (map key_of ys)"
    by (simp only: set_map s)
  then have keys: "sort (remdups (map key_of xs)) = sort (remdups (map key_of ys))"
    by (intro sort_distinct_set_cong) (simp_all only: distinct_remdups set_remdups)
  have "mset (map snd (filter (\<lambda>a. key_of a = k) xs)) =
      mset (map snd (filter (\<lambda>a. key_of a = k) ys))" for k
    using assms by (simp only: mset_map mset_filter)
  then have vals: "sort (map snd (filter (\<lambda>a. key_of a = k) xs)) =
      sort (map snd (filter (\<lambda>a. key_of a = k) ys))" for k
    by (rule sort_mset_cong)
  show ?thesis
    unfolding Name_str_render keys vals ..
qed

text \<open>
  The constructor files the first member of every container and nothing else; it fails
  only on a container without members.
\<close>

lemma Name_part_loop_first:
  "list_all (\<lambda>a. a \<noteq> []) part \<Longrightarrow>
   Name_part_loop d part = Inr (foldl add_pair d (concat (map (take 1) part)))"
proof (induction part arbitrary: d)
  case Nil
  show ?case by simp
next
  case (Cons a part)
  then obtain tv rest where a: "a = tv # rest" by (cases a) auto
  from Cons show ?case by (simp add: a add_attr_def getitem_def)
qed

lemma Name_loop_first:
  "list_all (list_all (\<lambda>a. a \<noteq> [])) name \<Longrightarrow>
   Name_loop d name = Inr (foldl add_pair d (concat (map (take 1) (concat name))))"
  by (induction name arbitrary: d) (simp_all add: Name_part_loop_first)

lemma Name_init_first:
  "list_all (list_all (\<lambda>a. a \<noteq> [])) name \<Longrightarrow>
   Name_init name = Inr (foldl add_pair [] (first_pairs name))"
  by (simp add: Name_init_def first_pairs_def Name_loop_first)

text \<open>
  So the string is the same for two names whose first members form the same multiset. In
  particular it is the same for two names with the same multiset of pairs in which
  every container has one member.
\<close>

lemma Name_str_first_pairs:
  assumes "list_all (list_all (\<lambda>a. a \<noteq> [])) name1"
    and "list_all (list_all (\<lambda>a. a \<noteq> [])) name2"
    and "mset (first_pairs name1) = mset (first_pairs name2)"
  shows "map_sum id Name_str (Name_init name1) = map_sum id Name_str (Name_init name2)"
proof -
  have "Name_str (foldl add_pair [] (first_pairs name1)) =
      Name_str (foldl add_pair [] (first_pairs name2))"
    using assms(3) by (rule Name_str_permutation)
  then show ?thesis
    by (simp add: Name_init_first [OF assms(1)] Name_init_first [OF assms(2)])
qed

lemma first_pairs_single:
  "list_all (list_all (\<lambda>a. length a = 1)) name \<Longrightarrow> first_pairs name = all_pairs name"
proof -
  have "list_all (\<lambda>a. length a = 1) part \<Longrightarrow> map (take 1) part = part" for part :: "attr list"
    by (induction part) simp_all
  moreover assume "list_all (list_all (\<lambda>a. length a = 1)) name"
  then have "list_all (\<lambda>a. length a = 1) (concat name)"
    by (induction name) simp_all
  ultimately show ?thesis
    by (simp add: first_pairs_def all_pairs_def)
qed

lemma Name_str_single_valued:
  assumes "list_all (list_all (\<lambda>a. length a = 1)) name1"
    and "list_all (list_all (\<lambda>a. length a = 1)) name2"
    and "mset (all_pairs name1) = mset (all_pairs name2)"
  shows "map_sum id Name_str (Name_init name1) = map_sum id Name_str (Name_init name2)"
proof -
  have ne: "list_all (list_all (\<lambda>a. length a = 1)) name \<Longrightarrow>
      list_all (list_all (\<lambda>a. a \<noteq> [])) name" for name :: "attr list list"
    by (fastforce simp: list_all_iff)
  have "mset (first_pairs name1) = mset (first_pairs name2)"
    using assms(3) by (simp add: first_pairs_single [OF assms(1)] first_pairs_single [OF assms(2)])
  with ne [OF assms(1)] ne [OF assms(2)] show ?thesis
    by (rule Name_str_first_pairs)
qed

text \<open>
  C5. Two RDN sequences with the same multiset of (attribute type, value) pairs should
  give Names with the same string form: keys sorted, values sorted within a key, pairs
  written KEY=value and joined by a comma and a space. The constructor does not do this
  when a relative distinguished name has more than one member, because it reads the
  member at position 0 only. The sequences ({CN=a}, {O=x}) and ({CN=a, O=x}) have the
  same pairs; the first gives "CN=a, O=x" and the second "CN=a". The same set written in
  the other order, ({O=x, CN=a}), gives "O=x".
\<close>

theorem Name_str_multivalued_rdn:
  "mset (all_pairs [[[(''2.5.4.3'', ''a'')], [(''2.5.4.10'', ''x'')]]]) =
   mset (all_pairs [[[(''2.5.4.3'', ''a''), (''2.5.4.10'', ''x'')]]]) \<and>
   mset (all_pairs [[[(''2.5.4.3'', ''a''), (''2.5.4.10'', ''x'')]]]) =
   mset (all_pairs [[[(''2.5.4.10'', ''x''), (''2.5.4.3'', ''a'')]]]) \<and>
   map_sum id Name_str (Name_init [[[(''2.5.4.3'', ''a'')], [(''2.5.4.10'', ''x'')]]]) =
     Inr ''CN=a, O=x'' \<and>
   map_sum id Name_str (Name_init [[[(''2.5.4.3'', ''a''), (''2.5.4.10'', ''x'')]]]) =
     Inr ''CN=a'' \<and>
   map_sum id Name_str (Name_init [[[(''2.5.4.10'', ''x''), (''2.5.4.3'', ''a'')]]]) =
     Inr ''O=x''"
proof -
  have m1: "mset (all_pairs [[[(''2.5.4.3'', ''a'')], [(''2.5.4.10'', ''x'')]]]) =
      mset (all_pairs [[[(''2.5.4.3'', ''a''), (''2.5.4.10'', ''x'')]]])"
    by (simp add: all_pairs_def)
  have m2: "mset (all_pairs [[[(''2.5.4.3'', ''a''), (''2.5.4.10'', ''x'')]]]) =
      mset (all_pairs [[[(''2.5.4.10'', ''x''), (''2.5.4.3'', ''a'')]]])"
    by (simp add: all_pairs_def)
  have a: "map_sum id Name_str (Name_init [[[(''2.5.4.3'', ''a'')], [(''2.5.4.10'', ''x'')]]]) =
      Inr ''CN=a, O=x''"
    by code_simp
  have b: "map_sum id Name_str (Name_init [[[(''2.5.4.3'', ''a''), (''2.5.4.10'', ''x'')]]]) =
      Inr ''CN=a''"
    by code_simp
  have c: "map_sum id Name_str (Name_init [[[(''2.5.4.10'', ''x''), (''2.5.4.3'', ''a'')]]]) =
      Inr ''O=x''"
    by code_simp
  from m1 m2 a b c show ?thesis by blast
qed

subsection \<open>Extensions\<close>

text \<open>
  C1. An extension whose OID is not in the table of decoders cannot be constructed when it
  is critical: a CertificateError is raised. When it is not critical, construction
  succeeds, the value is the raw bytes of extnValue and ext\_type is unset.
\<close>

theorem Extension_init_unknown_oid:
  assumes "map_of extensionDecoders (extnID extension) = None"
  shows "(critical extension \<noteq> 0 \<longrightarrow>
            Extension_init decode conv extension =
              Inl (CertificateError
                     (''Critical extension OID '' @ extnID extension @ '' not understood''))) \<and>
         (critical extension = 0 \<longrightarrow>
            Extension_init decode conv extension =
              Inr \<lparr>ext_id = extnID extension, is_critical = False,
                   ext_value = Raw (extnValue extension), ext_type = None\<rparr>)"
  using assms by (simp add: Extension_init_def)

theorem Extension_init_unknown_oid_witness:
  "map_of extensionDecoders ''1.2.3.4'' = None \<and>
   Extension_init example_decode example_conv
     \<lparr>extnID = ''1.2.3.4'', critical = 1, extnValue = [CHR 0x05, CHR 0x00]\<rparr> =
     Inl (CertificateError ''Critical extension OID 1.2.3.4 not understood'') \<and>
   Extension_init example_decode example_conv
     \<lparr>extnID = ''1.2.3.4'', critical = 0, extnValue = [CHR 0x05, CHR 0x00]\<rparr> =
     Inr \<lparr>ext_id = ''1.2.3.4'', is_critical = False,
          ext_value = Raw [CHR 0x05, CHR 0x00], ext_type = None\<rparr>"
proof -
  have n: "map_of extensionDecoders ''1.2.3.4'' = None"
    by (simp add: extensionDecoders_def)
  have n1: "map_of extensionDecoders
      (extnID \<lparr>extnID = ''1.2.3.4'', critical = 1, extnValue = [CHR 0x05, CHR 0x00]\<rparr>) = None"
    using n by simp
  have n0: "map_of extensionDecoders
      (extnID \<lparr>extnID = ''1.2.3.4'', critical = 0, extnValue = [CHR 0x05, CHR 0x00]\<rparr>) = None"
    using n by simp
  from Extension_init_unknown_oid [OF n1, of example_decode example_conv]
  have a: "Extension_init example_decode example_conv
     \<lparr>extnID = ''1.2.3.4'', critical = 1, extnValue = [CHR 0x05, CHR 0x00]\<rparr> =
     Inl (CertificateError ''Critical extension OID 1.2.3.4 not understood'')"
    by simp
  from Extension_init_unknown_oid [OF n0, of example_decode example_conv]
  have b: "Extension_init example_decode example_conv
     \<lparr>extnID = ''1.2.3.4'', critical = 0, extnValue = [CHR 0x05, CHR 0x00]\<rparr> =
     Inr \<lparr>ext_id = ''1.2.3.4'', is_critical = False,
          ext_value = Raw [CHR 0x05, CHR 0x00], ext_type = None\<rparr>"
    by simp
  from n a b show ?thesis by blast
qed

text \<open>
  C2, as the code has it. For an extension whose OID is in the table and whose decoding
  or conversion fails: when the extension is critical the failure propagates; when it is
  not critical, a failure of the decoder's error class PyAsn1Error is swallowed, and
  construction succeeds with the raw bytes as value and ext\_type unset, while a failure
  of any other class propagates.
\<close>

theorem Extension_init_failure:
  assumes "map_of extensionDecoders (extnID extension) = Some (spec, extType)"
    and "decode_and_convert decode conv (extnValue extension) spec extType = Inl e"
  shows "(critical extension \<noteq> 0 \<longrightarrow> Extension_init decode conv extension = Inl e) \<and>
         (critical extension = 0 \<longrightarrow> e = PyAsn1Error \<longrightarrow>
            Extension_init decode conv extension =
              Inr \<lparr>ext_id = extnID extension, is_critical = False,
                   ext_value = Raw (extnValue extension), ext_type = None\<rparr>) \<and>
         (critical extension = 0 \<longrightarrow> e \<noteq> PyAsn1Error \<longrightarrow>
            Extension_init decode conv extension = Inl e)"
  using assms by (simp add: Extension_init_def Let_def)

lemma key_usage_entry: "map_of extensionDecoders ''2.5.29.15'' = Some (None, KEY_USAGE)"
  by (simp add: extensionDecoders_def)

lemma example_bad_bytes:
  "decode_and_convert example_decode example_conv [CHR 0x03] None KEY_USAGE = Inl PyAsn1Error"
  by (simp add: decode_and_convert_def example_decode_def)

lemma example_integer:
  "decode_and_convert example_decode example_conv [CHR 0x02, CHR 0x01, CHR 0x05] None KEY_USAGE =
     Inl TypeError"
  by (simp add: decode_and_convert_def example_decode_def example_conv_def KeyUsageExt_of_def)

theorem Extension_init_failure_witness:
  "Extension_init example_decode example_conv
     \<lparr>extnID = ''2.5.29.15'', critical = 1, extnValue = [CHR 0x03]\<rparr> = Inl PyAsn1Error \<and>
   Extension_init example_decode example_conv
     \<lparr>extnID = ''2.5.29.15'', critical = 0, extnValue = [CHR 0x03]\<rparr> =
     Inr \<lparr>ext_id = ''2.5.29.15'', is_critical = False,
          ext_value = Raw [CHR 0x03], ext_type = None\<rparr> \<and>
   Extension_init example_decode example_conv
     \<lparr>extnID = ''2.5.29.15'', critical = 0, extnValue = [CHR 0x02, CHR 0x01, CHR 0x05]\<rparr> =
     Inl TypeError"
proof -
  have k: "map_of extensionDecoders (extnID \<lparr>extnID = ''2.5.29.15'', critical = c,
      extnValue = bs\<rparr>) = Some (None, KEY_USAGE)" for c bs
    using key_usage_entry by simp
  have f1: "decode_and_convert example_decode example_conv
      (extnValue \<lparr>extnID = ''2.5.29.15'', critical = c, extnValue = [CHR 0x03]\<rparr>)
      None KEY_USAGE = Inl PyAsn1Error" for c
    using example_bad_bytes by simp
  have f2: "decode_and_convert example_decode example_conv
      (extnValue \<lparr>extnID = ''2.5.29.15'', critical = 0,
         extnValue = [CHR 0x02, CHR 0x01, CHR 0x05]\<rparr>)
      None KEY_USAGE = Inl TypeError"
    using example_integer by simp
  from Extension_init_failure [OF k f1, of 1]
  have a: "Extension_init example_decode example_conv
     \<lparr>extnID = ''2.5.29.15'', critical = 1, extnValue = [CHR 0x03]\<rparr> = Inl PyAsn1Error"
    by simp
  from Extension_init_failure [OF k f1, of 0]
  have b: "Extension_init example_decode example_conv
     \<lparr>extnID = ''2.5.29.15'', critical = 0, extnValue = [CHR 0x03]\<rparr> =
     Inr \<lparr>ext_id = ''2.5.29.15'', is_critical = False,
          ext_value = Raw [CHR 0x03], ext_type = None\<rparr>"
    by simp
  from Extension_init_failure [OF k f2]
  have c: "Extension_init example_decode example_conv
     \<lparr>extnID = ''2.5.29.15'', critical = 0, extnValue = [CHR 0x02, CHR 0x01, CHR 0x05]\<rparr> =
     Inl TypeError"
    by simp
  from a b c show ?thesis by blast
qed

text \<open>
  The claim as the specification words it, that every failure of the typed parsing of a
  non-critical extension is swallowed, fails on a non-critical key usage extension whose
  bytes hold an integer instead of a bit string: the OID is in the table, the decoder
  succeeds, KeyUsageExt raises a TypeError, and construction fails with it.
\<close>

theorem Extension_init_swallow_counterexample:
  "map_of extensionDecoders ''2.5.29.15'' = Some (None, KEY_USAGE) \<and>
   example_decode [CHR 0x02, CHR 0x01, CHR 0x05] None = Inr (IntegerValue 5) \<and>
   example_conv KEY_USAGE (IntegerValue 5) = Inl TypeError \<and>
   Extension_init example_decode example_conv
     \<lparr>extnID = ''2.5.29.15'', critical = 0, extnValue = [CHR 0x02, CHR 0x01, CHR 0x05]\<rparr> =
     Inl TypeError \<and>
   Extension_init example_decode example_conv
     \<lparr>extnID = ''2.5.29.15'', critical = 0, extnValue = [CHR 0x02, CHR 0x01, CHR 0x05]\<rparr> \<noteq>
     Inr \<lparr>ext_id = ''2.5.29.15'', is_critical = False,
          ext_value = Raw [CHR 0x02, CHR 0x01, CHR 0x05], ext_type = None\<rparr>"
  by (simp add: Extension_init_def key_usage_entry example_integer)
     (simp add: example_decode_def example_conv_def KeyUsageExt_of_def)

end
